theory Spec2Isabelle
  imports Main
begin

section \<open>Python values\<close>

text \<open>
  A Python \<^verbatim>\<open>str\<close> is a sequence of Unicode code points, and \<^verbatim>\<open>len\<close> and slicing count
  code points. A character is therefore its code point, a natural number, and a string is
  a list of them. \<open>ustr\<close> turns an ASCII literal of this file into such a string.
\<close>

type_synonym ustring = "nat list"

definition ustr :: "string \<Rightarrow> ustring" where
  "ustr s = map of_char s"

text \<open>
  A decoded double: \<open>FFinite m e\<close> is the value \<open>m * 2 ^ e\<close>; the infinities carry their
  sign. Only its truth value matters to this program.
\<close>

datatype pyfloat = FFinite int int | FInf bool | FNaN

text \<open>
  The values \<^verbatim>\<open>json.loads\<close> produces and \<^verbatim>\<open>json.dumps\<close> accepts. A \<^verbatim>\<open>dict\<close> is
  the list of its items in insertion order; the dicts this program builds have distinct
  keys.
\<close>

datatype json =
    JNull
  | JBool bool
  | JInt int
  | JFloat pyfloat
  | JStr ustring
  | JArr "json list"
  | JObj "(ustring \<times> json) list"

text \<open>The exception classes that occur on the paths modelled here.\<close>

datatype exn =
    Timeout
  | ConnectionError
  | OtherRequestError
  | JSONDecodeError
  | KeyError
  | IndexError
  | TypeError
  | AttributeError
  | UnboundLocalError
  | UnicodeEncodeError
  | PDFParseError

text \<open>Truth value of a Python object, as \<^verbatim>\<open>if not x\<close> tests it.\<close>

fun truthy :: "json \<Rightarrow> bool" where
  "truthy JNull = False"
| "truthy (JBool b) = b"
| "truthy (JInt i) = (i \<noteq> 0)"
| "truthy (JFloat (FFinite m e)) = (m \<noteq> 0)"
| "truthy (JFloat (FInf s)) = True"
| "truthy (JFloat FNaN) = True"
| "truthy (JStr s) = (s \<noteq> [])"
| "truthy (JArr xs) = (xs \<noteq> [])"
| "truthy (JObj kvs) = (kvs \<noteq> [])"

text \<open>\<^verbatim>\<open>d.get(key, default)\<close> on the items of a dict.\<close>

definition dict_get :: "(ustring \<times> json) list \<Rightarrow> ustring \<Rightarrow> json \<Rightarrow> json" where
  "dict_get kvs k dflt = (case map_of kvs k of Some v \<Rightarrow> v | None \<Rightarrow> dflt)"

text \<open>
  \<^verbatim>\<open>x.get(key, default)\<close> on an arbitrary decoded value: only a dict has the method.
\<close>

fun py_get :: "json \<Rightarrow> ustring \<Rightarrow> json \<Rightarrow> exn + json" where
  "py_get (JObj kvs) k dflt = Inr (dict_get kvs k dflt)"
| "py_get _ k dflt = Inl AttributeError"

text \<open>\<^verbatim>\<open>x[key]\<close> with a string key.\<close>

fun getitem_str :: "json \<Rightarrow> ustring \<Rightarrow> exn + json" where
  "getitem_str (JObj kvs) k = (case map_of kvs k of Some v \<Rightarrow> Inr v | None \<Rightarrow> Inl KeyError)"
| "getitem_str _ k = Inl TypeError"

text \<open>
  \<^verbatim>\<open>x[0]\<close>. The keys of a decoded JSON object are strings, so \<open>0\<close> is never among them.
\<close>

fun getitem_0 :: "json \<Rightarrow> exn + json" where
  "getitem_0 (JArr []) = Inl IndexError"
| "getitem_0 (JArr (x # xs)) = Inr x"
| "getitem_0 (JStr []) = Inl IndexError"
| "getitem_0 (JStr (c # cs)) = Inr (JStr [c])"
| "getitem_0 (JObj kvs) = Inl KeyError"
| "getitem_0 _ = Inl TypeError"

text \<open>\<^verbatim>\<open>len(x)\<close>.\<close>

fun py_len :: "json \<Rightarrow> exn + nat" where
  "py_len (JStr s) = Inr (length s)"
| "py_len (JArr xs) = Inr (length xs)"
| "py_len (JObj kvs) = Inr (length kvs)"
| "py_len _ = Inl TypeError"

text \<open>
  The elements a \<^verbatim>\<open>for\<close> loop or \<^verbatim>\<open>str.join\<close> draws from a value: the items of a list, the
  characters of a string, the keys of a dict.
\<close>

fun py_iter :: "json \<Rightarrow> exn + json list" where
  "py_iter (JArr xs) = Inr xs"
| "py_iter (JStr s) = Inr (map (\<lambda>c. JStr [c]) s)"
| "py_iter (JObj kvs) = Inr (map (\<lambda>kv. JStr (fst kv)) kvs)"
| "py_iter _ = Inl TypeError"

text \<open>\<^verbatim>\<open>sep.join(x)\<close>: every element drawn from \<open>x\<close> must be a string.\<close>

fun join_strs :: "ustring \<Rightarrow> json list \<Rightarrow> exn + ustring" where
  "join_strs sep [] = Inr []"
| "join_strs sep [JStr s] = Inr s"
| "join_strs sep (JStr s # x # xs) =
     (case join_strs sep (x # xs) of Inl e \<Rightarrow> Inl e | Inr r \<Rightarrow> Inr (s @ sep @ r))"
| "join_strs sep (_ # xs) = Inl TypeError"

definition py_join :: "ustring \<Rightarrow> json \<Rightarrow> exn + ustring" where
  "py_join sep x = (case py_iter x of Inl e \<Rightarrow> Inl e | Inr xs \<Rightarrow> join_strs sep xs)"

text \<open>\<^verbatim>\<open>str.isspace\<close> of one character, the set \<^verbatim>\<open>str.strip()\<close> removes.\<close>

definition py_isspace :: "nat \<Rightarrow> bool" where
  "py_isspace c \<longleftrightarrow>
     (9 \<le> c \<and> c \<le> 13) \<or> (28 \<le> c \<and> c \<le> 32) \<or> c = 133 \<or> c = 160 \<or> c = 5760 \<or>
     (8192 \<le> c \<and> c \<le> 8202) \<or> c = 8232 \<or> c = 8233 \<or> c = 8239 \<or> c = 8287 \<or> c = 12288"

definition py_strip :: "ustring \<Rightarrow> ustring" where
  "py_strip s = rev (dropWhile py_isspace (rev (dropWhile py_isspace s)))"

text \<open>
  \<^verbatim>\<open>re.sub(r'C{2,}', repl, text)\<close> for a character class \<open>C\<close>: every maximal run of two or
  more characters of the class is replaced by \<open>repl\<close>; a single one stays.
\<close>

function sub_runs :: "(nat \<Rightarrow> bool) \<Rightarrow> ustring \<Rightarrow> ustring \<Rightarrow> ustring" where
  "sub_runs C repl [] = []"
| "sub_runs C repl [c] = [c]"
| "sub_runs C repl (c # d # ds) =
     (if C c \<and> C d then repl @ sub_runs C repl (dropWhile C ds)
      else c # sub_runs C repl (d # ds))"
  by pat_completeness auto
termination
  by (relation "measure (\<lambda>(C, repl, s). length s)")
     (auto simp: le_imp_less_Suc length_dropWhile_le less_Suc_eq_le le_SucI)

text \<open>\<^verbatim>\<open>os.path.basename\<close> (POSIX): what follows the last slash.\<close>

definition basename :: "ustring \<Rightarrow> ustring" where
  "basename p = rev (takeWhile (\<lambda>c. c \<noteq> 47) (rev p))"

section \<open>The outside: PDF libraries and the remote service\<close>

text \<open>
  The PDF libraries are outside the program. \<^verbatim>\<open>pdfminer\<close>'s \<^verbatim>\<open>extract_pages\<close> either
  raises while the pages are drawn from it or yields the pages, each a list of layout
  elements; \<^verbatim>\<open>pdfplumber\<close> and \<^verbatim>\<open>PyPDF2\<close> either raise or yield, for each page, what
  \<^verbatim>\<open>page.extract_text\<close> returns (\<open>None\<close> is Python's \<^verbatim>\<open>None\<close>).
\<close>

datatype element = LTTextContainer ustring | LTOther

text \<open>
  The remote service is outside the program too. A request is what \<^verbatim>\<open>requests.post\<close> is
  given; a response is read through \<^verbatim>\<open>status_code\<close> and \<^verbatim>\<open>json()\<close> (\<open>None\<close>: the body is
  not JSON and \<^verbatim>\<open>json()\<close> raises).
\<close>

record request =
  req_url :: ustring
  req_headers :: "(ustring \<times> ustring) list"
  req_json :: json
  req_timeout :: nat

record response =
  status_code :: int
  json_body :: "json option"

datatype post_result = Responded response | PostRaised exn

text \<open>
  Everything the program reads from outside: the three PDF libraries, the HTTP exchange
  (\<open>requests_post w req k\<close> is the outcome of the \<open>k\<close>-th POST of one call, counted from
  0) and \<^verbatim>\<open>json.loads\<close> on a string (\<open>None\<close>: \<^verbatim>\<open>JSONDecodeError\<close>).
\<close>

record world =
  extract_pages :: "ustring \<Rightarrow> exn + element list list"
  pdfplumber_pages :: "ustring \<Rightarrow> exn + ustring option list"
  pdf_reader_pages :: "ustring \<Rightarrow> exn + ustring option list"
  requests_post :: "request \<Rightarrow> nat \<Rightarrow> post_result"
  json_loads :: "ustring \<Rightarrow> json option"

section \<open>Text extraction (extract\_pdf.py)\<close>

text \<open>
  \<^verbatim>\<open>clean_text\<close> of the module (lines 31-33): the printable ASCII characters, stripped.
\<close>

definition clean_text :: "ustring \<Rightarrow> ustring" where
  "clean_text t = py_strip (filter (\<lambda>c. 32 \<le> c \<and> c \<le> 126) t)"

text \<open>
  \<^verbatim>\<open>extract_text\<close> (lines 17-29), the extractor built on \<^verbatim>\<open>PyPDF2\<close>: its \<^verbatim>\<open>try\<close> turns every
  exception into the empty string.
\<close>

fun reader_text :: "ustring option list \<Rightarrow> ustring" where
  "reader_text [] = []"
| "reader_text (page # pages) =
     clean_text (case page of None \<Rightarrow> [] | Some t \<Rightarrow> t) @ [10] @ reader_text pages"

definition extract_text :: "world \<Rightarrow> ustring \<Rightarrow> ustring" where
  "extract_text w pdf_path =
     (case pdf_reader_pages w pdf_path of Inl e \<Rightarrow> [] | Inr pages \<Rightarrow> reader_text pages)"

text \<open>
  The \<^verbatim>\<open>clean_text\<close> nested in \<^verbatim>\<open>extract_pdf\<close> (lines 103-108), which hides the one of the
  module there.
\<close>

definition extract_pdf_clean_text :: "ustring \<Rightarrow> ustring" where
  "extract_pdf_clean_text t =
     py_strip (sub_runs (\<lambda>c. c = 10) [10, 10]
       (sub_runs (\<lambda>c. c = 32 \<or> c = 9 \<or> c = 12) [32] t))"

text \<open>What the inner loop of lines 134-136 writes for one page.\<close>

fun page_text :: "element list \<Rightarrow> ustring" where
  "page_text [] = []"
| "page_text (LTTextContainer t # es) = t @ [10] @ page_text es"
| "page_text (LTOther # es) = page_text es"

text \<open>The loop of lines 122-123: \<^verbatim>\<open>None + "\n"\<close> raises \<^verbatim>\<open>TypeError\<close>.\<close>

fun plumber_text :: "ustring option list \<Rightarrow> exn + ustring" where
  "plumber_text [] = Inr []"
| "plumber_text (None # ps) = Inl TypeError"
| "plumber_text (Some t # ps) =
     (case plumber_text ps of Inl e \<Rightarrow> Inl e | Inr r \<Rightarrow> Inr (t @ [10] @ r))"

text \<open>
  \<^verbatim>\<open>extract_pdf(pdf_path, engine)\<close>, lines 91-137. There is no \<^verbatim>\<open>try\<close> in it: what a library
  raises leaves the function.
\<close>

definition extract_pdf :: "world \<Rightarrow> ustring \<Rightarrow> ustring \<Rightarrow> exn + ustring" where
  "extract_pdf w pdf_path engine =
     (if engine = ustr ''pdfplumber'' then
        (case pdfplumber_pages w pdf_path of
           Inl e \<Rightarrow> Inl e
         | Inr ps \<Rightarrow>
             (case plumber_text ps of
                Inl e \<Rightarrow> Inl e
              | Inr t \<Rightarrow> Inr (extract_pdf_clean_text t)))
      else
        (case extract_pages w pdf_path of
           Inl e \<Rightarrow> Inl e
         | Inr pages \<Rightarrow> Inr (extract_pdf_clean_text (concat (map page_text pages)))))"


section \<open>Classification (citation\_analyzer.py)\<close>

text \<open>The configuration constants of lines 11-16 that the modelled functions read.\<close>

record config =
  api_endpoint :: ustring
  api_key :: ustring
  your_paper_title :: ustring

text \<open>
  The literal text of the f-string of lines 31-56, one list per source line: up to the
  first \<^verbatim>\<open>{YOUR_PAPER_TITLE}\<close>, between the two, and from the second to \<^verbatim>\<open>{pdf_text}\<close>, which
  ends the template. The last line of \<open>prompt_tail\<close> is the label of line 55, which
  announces the first 30000 characters of the PDF content.
\<close>

definition prompt_head :: ustring where
  "prompt_head = concat
    [[35831, 20005, 26684, 20998, 26512, 24403, 21069, 80, 68, 70, 25991, 20214, 20869, 23481, 65292, 24403, 21069, 36755, 20837, 30340, 112, 100, 102, 25991, 20214, 20869, 23481, 26159, 19968, 31687, 23398, 26415, 35770, 25991, 65306, 10],
     [32, 32, 32, 32, 35, 35, 32, 26680, 24515, 20219, 21153, 10],
     [32, 32, 32, 32, 49, 46, 32, 22312, 35770, 25991, 27491, 25991, 20013, 23450, 20301, 23545, 21442, 32771, 25991, 29486, 12298]]"

definition prompt_middle :: ustring where
  "prompt_middle = concat
    [[12299, 30340, 24341, 29992, 35780, 20215, 65288, 9989, 27491, 38754, 47, 9888, 65039, 20013, 24615, 47, 10060, 36127, 38754, 65289, 10],
     [32, 32, 32, 32, 50, 46, 32, 25552, 21462, 26045, 24341, 25991, 29486, 30340, 26631, 39064, 21644, 26399, 21002, 21517, 31216, 10],
     [32, 32, 32, 32, 51, 46, 32, 25552, 21462, 25152, 26377, 20316, 32773, 22995, 21517, 40, 25353, 26631, 20934, 26684, 24335, 58, 32, 90, 104, 97, 110, 103, 32, 101, 116, 32, 97, 108, 46, 32, 25110, 32, 76, 105, 44, 32, 89, 46, 41, 10],
     [10],
     [32, 32, 32, 32, 35, 35, 32, 36755, 20986, 35201, 27714, 10],
     [32, 32, 32, 32, 36820, 22238, 32431, 20928, 74, 83, 79, 78, 23545, 35937, 65306, 10],
     [32, 32, 32, 32, 123, 10],
     [32, 32, 32, 32, 32, 32, 32, 32, 34, 116, 105, 116, 108, 101, 34, 58, 32, 34, 26045, 24341, 25991, 29486, 26631, 39064, 34, 44, 10],
     [32, 32, 32, 32, 32, 32, 32, 32, 34, 106, 111, 117, 114, 110, 97, 108, 34, 58, 32, 34, 26399, 21002, 21517, 31216, 34, 44, 10],
     [32, 32, 32, 32, 32, 32, 32, 32, 34, 97, 117, 116, 104, 111, 114, 115, 34, 58, 32, 91, 34, 20316, 32773, 49, 34, 44, 32, 34, 20316, 32773, 50, 34, 93, 65292, 22914, 26524, 26159, 20013, 25991, 21517, 65292, 35831, 30452, 25509, 20351, 29992, 20013, 25991, 21517, 44, 10],
     [32, 32, 32, 32, 32, 32, 32, 32, 34, 99, 105, 116, 97, 116, 105, 111, 110, 115, 34, 58, 32, 91, 123, 10],
     [32, 32, 32, 32, 32, 32, 32, 32, 32, 32, 32, 32, 34, 113, 117, 111, 116, 101, 34, 58, 32, 34, 23547, 25214, 35770, 25991, 27491, 25991, 20013, 23545, 21442, 32771, 25991, 29486, 12298]]"

definition prompt_tail :: ustring where
  "prompt_tail = concat
    [[12299, 30340, 24341, 29992, 35780, 20215, 21407, 25991, 34, 44, 10],
     [32, 32, 32, 32, 32, 32, 32, 32, 32, 32, 32, 32, 34, 115, 101, 110, 116, 105, 109, 101, 110, 116, 34, 58, 32, 34, 35780, 20215, 24615, 36136, 34, 44, 10],
     [32, 32, 32, 32, 32, 32, 32, 32, 32, 32, 32, 32, 34, 112, 97, 103, 101, 34, 58, 32, 34, 39029, 30721, 34, 10],
     [32, 32, 32, 32, 32, 32, 32, 32, 125, 93, 10],
     [32, 32, 32, 32, 125, 10],
     [10],
     [32, 32, 32, 32, 35, 35, 32, 22788, 29702, 35268, 21017, 10],
     [32, 32, 32, 32, 45, 32, 24573, 30053, 38750, 24341, 29992, 20869, 23481, 30340, 25991, 26412, 10],
     [32, 32, 32, 32, 45, 32, 26080, 30456, 20851, 24341, 29992, 26102, 36820, 22238, 31354, 21015, 34920, 10],
     [32, 32, 32, 32, 45, 32, 20445, 25345, 74, 83, 79, 78, 32467, 26500, 23436, 25972, 10],
     [10],
     [32, 32, 32, 32, 45, 45, 45, 32, 80, 68, 70, 20869, 23481, 40, 21069, 51, 48, 48, 48, 48, 23383, 31526, 41, 32, 45, 45, 45, 10],
     [32, 32, 32, 32]]"

definition build_prompt :: "config \<Rightarrow> ustring \<Rightarrow> ustring" where
  "build_prompt cfg pdf_text =
     prompt_head @ your_paper_title cfg @ prompt_middle @ your_paper_title cfg @
     prompt_tail @ pdf_text"

text \<open>The payload of lines 58-64; the temperature is the double nearest to 0.3.\<close>

definition build_payload :: "config \<Rightarrow> ustring \<Rightarrow> json" where
  "build_payload cfg pdf_text = JObj
     [(ustr ''model'', JStr (ustr ''deepseek-ai/DeepSeek-R1-Distill-Qwen-32B'')),
      (ustr ''messages'', JArr [JObj
         [(ustr ''role'', JStr (ustr ''user'')),
          (ustr ''content'', JStr (build_prompt cfg pdf_text))]]),
      (ustr ''temperature'', JFloat (FFinite 5404319552844595 (- 54))),
      (ustr ''max_tokens'', JInt 2000),
      (ustr ''response_format'', JObj [(ustr ''type'', JStr (ustr ''json_object''))])]"

definition build_request :: "config \<Rightarrow> ustring \<Rightarrow> request" where
  "build_request cfg pdf_text =
     \<lparr>req_url = api_endpoint cfg,
      req_headers =
        [(ustr ''Authorization'', ustr ''Bearer '' @ api_key cfg),
         (ustr ''Content-Type'', ustr ''application/json'')],
      req_json = build_payload cfg pdf_text,
      req_timeout = 60\<rparr>"

text \<open>The text the request carries to the model: the user message of the payload.\<close>

definition message_content :: "request \<Rightarrow> ustring" where
  "message_content req =
     (case getitem_str (req_json req) (ustr ''messages'') of
        Inr (JArr [JObj m]) \<Rightarrow> (case map_of m (ustr ''content'') of Some (JStr s) \<Rightarrow> s | _ \<Rightarrow> [])
      | _ \<Rightarrow> [])"

text \<open>
  The part of that text that follows the template: what the request embeds of the
  extracted text.
\<close>

definition embedded_text :: "config \<Rightarrow> request \<Rightarrow> ustring" where
  "embedded_text cfg req = drop (length (build_prompt cfg [])) (message_content req)"

text \<open>What the program does to the outside, in order: the POSTs and the sleeps.\<close>

record io_log =
  posts :: "request list"
  sleeps :: "nat list"

definition no_io :: io_log where
  "no_io = \<lparr>posts = [], sleeps = []\<rparr>"

text \<open>Line 83: \<^verbatim>\<open>response_data["choices"][0]["message"]["content"]\<close>.\<close>

definition completion_content :: "json \<Rightarrow> exn + json" where
  "completion_content response_data =
     (case getitem_str response_data (ustr ''choices'') of
        Inl e \<Rightarrow> Inl e
      | Inr choices \<Rightarrow>
          (case getitem_0 choices of
             Inl e \<Rightarrow> Inl e
           | Inr choice \<Rightarrow>
               (case getitem_str choice (ustr ''message'') of
                  Inl e \<Rightarrow> Inl e
                | Inr message \<Rightarrow> getitem_str message (ustr ''content''))))"

text \<open>\<^verbatim>\<open>json.loads(content)\<close>: anything but a string is a \<^verbatim>\<open>TypeError\<close>.\<close>

fun py_json_loads :: "world \<Rightarrow> json \<Rightarrow> exn + json" where
  "py_json_loads w (JStr s) =
     (case json_loads w s of None \<Rightarrow> Inl JSONDecodeError | Some v \<Rightarrow> Inr v)"
| "py_json_loads w _ = Inl TypeError"

text \<open>
  The inner \<^verbatim>\<open>try\<close> of lines 81-88. Its handler takes \<^verbatim>\<open>KeyError\<close> and
  \<^verbatim>\<open>JSONDecodeError\<close> and prints \<^verbatim>\<open>content\<close>: when line 83 raised, \<^verbatim>\<open>content\<close> was never
  bound and the handler itself raises \<^verbatim>\<open>UnboundLocalError\<close>; when line 84 raised it returns
  the empty dict.
\<close>

definition parse_completion :: "world \<Rightarrow> json \<Rightarrow> exn + json" where
  "parse_completion w response_data =
     (case completion_content response_data of
        Inl e \<Rightarrow> if e = KeyError \<or> e = JSONDecodeError then Inl UnboundLocalError else Inl e
      | Inr content \<Rightarrow>
          (case py_json_loads w content of
             Inl e \<Rightarrow> if e = KeyError \<or> e = JSONDecodeError then Inr (JObj []) else Inl e
           | Inr v \<Rightarrow> Inr v))"

text \<open>One pass through the loop body either returns from the function or backs off.\<close>

datatype outcome = Return json | Backoff

text \<open>The body of the outer \<^verbatim>\<open>try\<close>, lines 71-105, up to the sleep.\<close>

definition try_body :: "world \<Rightarrow> request \<Rightarrow> nat \<Rightarrow> exn + outcome" where
  "try_body w req attempt =
     (case requests_post w req attempt of
        PostRaised e \<Rightarrow> Inl e
      | Responded r \<Rightarrow>
          if status_code r = 200 then
            (case json_body r of
               None \<Rightarrow> Inl JSONDecodeError
             | Some response_data \<Rightarrow>
                 (case parse_completion w response_data of
                    Inl e \<Rightarrow> Inl e
                  | Inr v \<Rightarrow> Inr (Return v)))
          else if status_code r = 429 then Inr Backoff
          else if status_code r = 503 then Inr Backoff
          else Inr (Return (JObj [])))"

text \<open>
  The two handlers of lines 108-116: a timeout or connection error backs off, any other
  exception returns the empty dict.
\<close>

definition attempt_once :: "world \<Rightarrow> request \<Rightarrow> nat \<Rightarrow> outcome" where
  "attempt_once w req attempt =
     (case try_body w req attempt of
        Inr out \<Rightarrow> out
      | Inl e \<Rightarrow> if e = Timeout \<or> e = ConnectionError then Backoff else Return (JObj []))"

text \<open>
  The \<^verbatim>\<open>for\<close> loop of lines 69-119 with \<open>n\<close> passes left: every pass posts; a back-off
  sleeps \<open>wait_time\<close> and doubles it; after the last pass the function returns the empty
  dict.
\<close>

fun retry_loop :: "world \<Rightarrow> request \<Rightarrow> nat \<Rightarrow> nat \<Rightarrow> nat \<Rightarrow> io_log \<Rightarrow> json \<times> io_log" where
  "retry_loop w req 0 attempt wait_time lg = (JObj [], lg)"
| "retry_loop w req (Suc n) attempt wait_time lg =
     (case attempt_once w req attempt of
        Return v \<Rightarrow> (v, lg\<lparr>posts := posts lg @ [req]\<rparr>)
      | Backoff \<Rightarrow>
          retry_loop w req n (Suc attempt) (wait_time * 2)
            (lg\<lparr>posts := posts lg @ [req], sleeps := sleeps lg @ [wait_time]\<rparr>))"

definition max_retries :: nat where
  "max_retries = 3"

definition call_llm_api :: "world \<Rightarrow> config \<Rightarrow> ustring \<Rightarrow> json \<times> io_log" where
  "call_llm_api w cfg pdf_text =
     retry_loop w (build_request cfg pdf_text) max_retries 0 5 no_io"

section \<open>One document\<close>

text \<open>A Paper Record is the dict \<^verbatim>\<open>process_single_pdf\<close> returns.\<close>

type_synonym paper = "(ustring \<times> json) list"

definition error_marker :: "ustring \<Rightarrow> ustring \<Rightarrow> paper" where
  "error_marker filename code =
     [(ustr ''filename'', JStr filename), (ustr ''error'', JStr code)]"

text \<open>
  \<^verbatim>\<open>process_single_pdf\<close>, lines 121-143, with what it did to the outside. The extractor is
  called with its default engine. Neither call is inside a \<^verbatim>\<open>try\<close>: an exception of
  \<^verbatim>\<open>extract_pdf\<close>, or of \<^verbatim>\<open>result.get\<close> on a value that is not a dict, leaves the function.
\<close>

definition process_single_pdf :: "world \<Rightarrow> config \<Rightarrow> ustring \<Rightarrow> (exn + paper) \<times> io_log" where
  "process_single_pdf w cfg pdf_path =
     (let filename = basename pdf_path in
      case extract_pdf w pdf_path (ustr ''pdfminer'') of
        Inl e \<Rightarrow> (Inl e, no_io)
      | Inr pdf_text \<Rightarrow>
          if pdf_text = [] then
            (Inr (error_marker filename (ustr ''TEXT_EXTRACTION_FAILED'')), no_io)
          else
            (case call_llm_api w cfg pdf_text of
               (result, lg) \<Rightarrow>
                 if \<not> truthy result then
                   (Inr (error_marker filename (ustr ''API_CALL_FAILED'')), lg)
                 else
                   (case result of
                      JObj kvs \<Rightarrow>
                        (Inr [(ustr ''filename'', JStr filename),
                              (ustr ''title'', dict_get kvs (ustr ''title'') (JStr [])),
                              (ustr ''journal'', dict_get kvs (ustr ''journal'') (JStr [])),
                              (ustr ''authors'', dict_get kvs (ustr ''authors'') (JArr [])),
                              (ustr ''citations'', dict_get kvs (ustr ''citations'') (JArr []))],
                         lg)
                    | _ \<Rightarrow> (Inl AttributeError, lg))))"

section \<open>The batch and the output table\<close>

text \<open>
  The loop of lines 158-167 over the finished tasks, given in their order of completion:
  the record of a task is appended; a task that raised is reported and leaves nothing.
\<close>

fun collect :: "world \<Rightarrow> config \<Rightarrow> ustring list \<Rightarrow> paper list" where
  "collect w cfg [] = []"
| "collect w cfg (pdf # pdfs) =
     (case fst (process_single_pdf w cfg pdf) of
        Inl e \<Rightarrow> collect w cfg pdfs
      | Inr res \<Rightarrow> res # collect w cfg pdfs)"

text \<open>
  \<^verbatim>\<open>q[:200] + "..."\<close>: a list cannot be concatenated with a string and a dict cannot be
  sliced (a \<^verbatim>\<open>TypeError\<close> up to Python 3.11, where a slice is not hashable).
\<close>

fun head_with_ellipsis :: "json \<Rightarrow> exn + json" where
  "head_with_ellipsis (JStr s) = Inr (JStr (take 200 s @ ustr ''...''))"
| "head_with_ellipsis _ = Inl TypeError"

text \<open>The conditional expression of line 180; its condition is evaluated first.\<close>

definition quote_field :: "json \<Rightarrow> exn + json" where
  "quote_field cite =
     (case py_get cite (ustr ''quote'') (JStr []) of
        Inl e \<Rightarrow> Inl e
      | Inr q \<Rightarrow>
          (case py_len q of
             Inl e \<Rightarrow> Inl e
           | Inr n \<Rightarrow> if n > 200 then head_with_ellipsis q else Inr q))"

text \<open>
  The list of lines 175-183 handed to \<^verbatim>\<open>writer.writerow\<close>, its seven elements evaluated
  from left to right. A row is the list of these values.
\<close>

definition build_row :: "paper \<Rightarrow> json \<Rightarrow> exn + json list" where
  "build_row res cite =
     (case getitem_str (JObj res) (ustr ''filename'') of
        Inl e \<Rightarrow> Inl e
      | Inr filename \<Rightarrow>
      (case py_join (ustr ''; '') (dict_get res (ustr ''authors'') (JArr [])) of
        Inl e \<Rightarrow> Inl e
      | Inr authors \<Rightarrow>
      (case quote_field cite of
        Inl e \<Rightarrow> Inl e
      | Inr quote \<Rightarrow>
      (case py_get cite (ustr ''sentiment'') (JStr []) of
        Inl e \<Rightarrow> Inl e
      | Inr sentiment \<Rightarrow>
      (case py_get cite (ustr ''page'') (JStr []) of
        Inl e \<Rightarrow> Inl e
      | Inr page \<Rightarrow>
          Inr [filename,
               dict_get res (ustr ''title'') (JStr []),
               dict_get res (ustr ''journal'') (JStr []),
               JStr authors, quote, sentiment, page])))))"

text \<open>
  \<^verbatim>\<open>writer.writerow\<close> on the file of line 170, opened with \<^verbatim>\<open>encoding="utf-8"\<close>. The writer
  renders a string as it is, quoted where needed, \<^verbatim>\<open>None\<close> as the empty string and any
  other value through \<^verbatim>\<open>str\<close>, which escapes what a string nested in a list or dict holds;
  the line is then encoded. A lone surrogate (U+D800 to U+DFFF), which \<^verbatim>\<open>json.loads\<close> yields
  for the escape of one, has no UTF-8 encoding: the call raises
  \<^verbatim>\<open>UnicodeEncodeError\<close> and nothing of the row is written.
\<close>

definition is_surrogate :: "nat \<Rightarrow> bool" where
  "is_surrogate c \<longleftrightarrow> 55296 \<le> c \<and> c \<le> 57343"

fun encodable :: "json \<Rightarrow> bool" where
  "encodable (JStr s) = list_all (\<lambda>c. \<not> is_surrogate c) s"
| "encodable _ = True"

definition writerow :: "json list \<Rightarrow> exn option" where
  "writerow row = (if list_all encodable row then None else Some UnicodeEncodeError)"

text \<open>
  The two loops of lines 173-183, with the rows that reached the file. Nothing catches an
  exception here, of the row's expression or of \<^verbatim>\<open>writerow\<close>: the rows written before it
  stay written and the run ends with it.
\<close>

fun write_cites :: "paper \<Rightarrow> json list \<Rightarrow> json list list \<times> exn option" where
  "write_cites res [] = ([], None)"
| "write_cites res (cite # cites) =
     (case build_row res cite of
        Inl e \<Rightarrow> ([], Some e)
      | Inr row \<Rightarrow>
          (case writerow row of
             Some e \<Rightarrow> ([], Some e)
           | None \<Rightarrow> (case write_cites res cites of (rows, x) \<Rightarrow> (row # rows, x))))"

definition write_paper :: "paper \<Rightarrow> json list list \<times> exn option" where
  "write_paper res =
     (case py_iter (dict_get res (ustr ''citations'') (JArr [])) of
        Inl e \<Rightarrow> ([], Some e)
      | Inr cites \<Rightarrow> write_cites res cites)"

fun write_rows :: "paper list \<Rightarrow> json list list \<times> exn option" where
  "write_rows [] = ([], None)"
| "write_rows (res # results) =
     (case write_paper res of
        (rows, Some e) \<Rightarrow> (rows, Some e)
      | (rows, None) \<Rightarrow> (case write_rows results of (rows', x) \<Rightarrow> (rows @ rows', x)))"

text \<open>The header of line 172.\<close>

definition csv_header :: "json list" where
  "csv_header =
     [JStr [25991, 20214, 21517], JStr [26045, 24341, 26631, 39064], JStr [26399, 21002],
      JStr [20316, 32773], JStr [24341, 29992, 21407, 25991], JStr [24773, 24863],
      JStr [39029, 30721]]"

text \<open>
  \<^verbatim>\<open>main\<close> from line 155 on, for the PDF files in their order of completion: the rows of
  the output table that reached the file, header first, and the exception that ended the
  run, if any. Opening the output file is taken to succeed.
\<close>

definition main :: "world \<Rightarrow> config \<Rightarrow> ustring list \<Rightarrow> json list list \<times> exn option" where
  "main w cfg pdf_files =
     (let results = collect w cfg pdf_files in
      case writerow csv_header of
        Some e \<Rightarrow> ([], Some e)
      | None \<Rightarrow> (case write_rows results of (rows, x) \<Rightarrow> (csv_header # rows, x)))"

section \<open>The shapes of the data model\<close>

text \<open>A Citation Record is a dict whose quote, when present, is a string.\<close>

fun citation_record :: "json \<Rightarrow> bool" where
  "citation_record (JObj kvs) =
     (case map_of kvs (ustr ''quote'') of None \<Rightarrow> True | Some (JStr q) \<Rightarrow> True | Some _ \<Rightarrow> False)"
| "citation_record _ = False"

fun is_str :: "json \<Rightarrow> bool" where
  "is_str (JStr s) = True"
| "is_str _ = False"

text \<open>
  The citations of a Paper Record, as line 174 reads them, when they are a list.
\<close>

definition citations_of :: "paper \<Rightarrow> json list" where
  "citations_of res =
     (case dict_get res (ustr ''citations'') (JArr []) of JArr cs \<Rightarrow> cs | _ \<Rightarrow> [])"

text \<open>
  A Paper Record of the data model: it has a filename, its authors, when present, are a
  list of strings, and its citations, when present, are a list of Citation Records. The
  error marker is one, with no citations.
\<close>

definition paper_record :: "paper \<Rightarrow> bool" where
  "paper_record res \<longleftrightarrow>
     map_of res (ustr ''filename'') \<noteq> None \<and>
     (case dict_get res (ustr ''authors'') (JArr []) of
        JArr as \<Rightarrow> list_all is_str as | _ \<Rightarrow> False) \<and>
     (case dict_get res (ustr ''citations'') (JArr []) of
        JArr cs \<Rightarrow> list_all citation_record cs | _ \<Rightarrow> False)"

text \<open>
  A record all of whose written text can be encoded: no lone surrogate in its filename,
  title, journal or author names, nor in the quote, sentiment or page of a citation.
\<close>

fun encodable_citation :: "json \<Rightarrow> bool" where
  "encodable_citation (JObj c) =
     (encodable (dict_get c (ustr ''quote'') (JStr [])) \<and>
      encodable (dict_get c (ustr ''sentiment'') (JStr [])) \<and>
      encodable (dict_get c (ustr ''page'') (JStr [])))"
| "encodable_citation _ = True"

definition encodable_record :: "paper \<Rightarrow> bool" where
  "encodable_record res \<longleftrightarrow>
     encodable (dict_get res (ustr ''filename'') (JStr [])) \<and>
     encodable (dict_get res (ustr ''title'') (JStr [])) \<and>
     encodable (dict_get res (ustr ''journal'') (JStr [])) \<and>
     list_all encodable
       (case dict_get res (ustr ''authors'') (JArr []) of JArr as \<Rightarrow> as | _ \<Rightarrow> []) \<and>
     list_all encodable_citation (citations_of res)"

section \<open>Sample worlds\<close>

text \<open>
  A decoder for four documents (34 is the double quote), a PDF library that reads one
  line of text from every path but \<open>corrupt.pdf\<close> and \<open>blank.pdf\<close>, and responses of the
  remote service.
\<close>

definition title_doc :: ustring where
  "title_doc =
     ustr ''{'' @ [34] @ ustr ''title'' @ [34] @ ustr '':'' @ [34] @ ustr ''T'' @ [34] @ ustr ''}''"

definition cites_doc :: ustring where
  "cites_doc = ustr ''{'' @ [34] @ ustr ''citations'' @ [34] @ ustr '':[{}]}''"

definition sample_loads :: "ustring \<Rightarrow> json option" where
  "sample_loads s =
     (if s = ustr ''{}'' then Some (JObj [])
      else if s = ustr ''[1]'' then Some (JArr [JInt 1])
      else if s = title_doc then Some (JObj [(ustr ''title'', JStr (ustr ''T''))])
      else if s = cites_doc then Some (JObj [(ustr ''citations'', JArr [JObj []])])
      else None)"

definition sample_pages :: "ustring \<Rightarrow> exn + element list list" where
  "sample_pages p =
     (if p = ustr ''papers/corrupt.pdf'' then Inl PDFParseError
      else if p = ustr ''papers/blank.pdf'' then Inr [[LTOther], []]
      else Inr [[LTTextContainer (ustr ''See [1].'')]])"

definition completion :: "ustring \<Rightarrow> response" where
  "completion s =
     \<lparr>status_code = 200,
      json_body = Some (JObj [(ustr ''choices'',
        JArr [JObj [(ustr ''message'', JObj [(ustr ''content'', JStr s)])]])])\<rparr>"

definition status_only :: "int \<Rightarrow> response" where
  "status_only c = \<lparr>status_code = c, json_body = None\<rparr>"

definition sample_world :: "(nat \<Rightarrow> post_result) \<Rightarrow> world" where
  "sample_world answers =
     \<lparr>extract_pages = sample_pages,
      pdfplumber_pages = (\<lambda>p. Inr []),
      pdf_reader_pages =
        (\<lambda>p. if p = ustr ''papers/corrupt.pdf'' then Inl PDFParseError else Inr []),
      requests_post = (\<lambda>req. answers),
      json_loads = sample_loads\<rparr>"

definition sample_config :: config where
  "sample_config =
     \<lparr>api_endpoint = ustr ''https://api.siliconflow.cn/v1/chat/completions'',
      api_key = [],
      your_paper_title = []\<rparr>"

text \<open>Two rate-limit responses, then a completion.\<close>

definition limited_twice :: "ustring \<Rightarrow> nat \<Rightarrow> post_result" where
  "limited_twice s k = (if k < 2 then Responded (status_only 429) else Responded (completion s))"

text \<open>A record with two citations, the second with no field at all.\<close>

definition sample_paper :: paper where
  "sample_paper =
     [(ustr ''filename'', JStr (ustr ''a.pdf'')),
      (ustr ''title'', JStr (ustr ''T'')),
      (ustr ''journal'', JStr []),
      (ustr ''authors'', JArr [JStr (ustr ''Li, Y.''), JStr (ustr ''Zhang et al.'')]),
      (ustr ''citations'', JArr
         [JObj [(ustr ''quote'', JStr (ustr ''as shown in [1]'')),
                (ustr ''sentiment'', JStr (ustr ''positive'')),
                (ustr ''page'', JStr (ustr ''3''))],
          JObj []])]"

text \<open>
  A record with three citations; the quote of the second is the one-character string that
  \<^verbatim>\<open>json.loads\<close> yields for the escape of U+D800. \<open>long_cite\<close> has a quote of 201
  characters.
\<close>

definition surrogate_paper :: paper where
  "surrogate_paper =
     [(ustr ''filename'', JStr (ustr ''s.pdf'')),
      (ustr ''title'', JStr (ustr ''T'')),
      (ustr ''journal'', JStr []),
      (ustr ''authors'', JArr []),
      (ustr ''citations'', JArr
         [JObj [(ustr ''quote'', JStr (ustr ''ok''))],
          JObj [(ustr ''quote'', JStr [55296])],
          JObj [(ustr ''quote'', JStr (ustr ''later''))]])]"

definition long_quote :: ustring where
  "long_quote = replicate 201 97"

definition long_cite :: json where
  "long_cite = JObj [(ustr ''quote'', JStr long_quote)]"

section \<open>Facts about the model\<close>

subsection \<open>Strings and dicts\<close>

lemma ustr_eq_iff [simp]: "ustr a = ustr b \<longleftrightarrow> a = b"
  unfolding ustr_def by (simp add: inj_map_eq_map inj_on_def)

lemma ustr_append [simp]: "ustr a @ ustr b = ustr (a @ b)"
  by (simp add: ustr_def)

lemma ustr_empty_iff [simp]: "ustr s = [] \<longleftrightarrow> s = []"
  by (simp add: ustr_def)

lemma of_char_below_256: "(of_char c :: nat) < 256"
proof -
  have "(of_char c :: nat) mod 256 = of_char c"
    by (rule of_char_mod_256)
  moreover have "(of_char c :: nat) mod 256 < 256"
    by simp
  ultimately show ?thesis by simp
qed

lemma ustr_free_of_surrogates [simp]: "list_all (\<lambda>c. \<not> is_surrogate c) (ustr s)"
proof -
  have "\<not> is_surrogate (of_char c)" for c
    using of_char_below_256 [of c] unfolding is_surrogate_def by linarith
  then show ?thesis by (simp add: ustr_def list_all_iff)
qed


lemma join_strs_total: "list_all is_str xs \<Longrightarrow> \<exists>r. join_strs sep xs = Inr r"
proof (induction sep xs rule: join_strs.induct)
  case (3 sep s x xs)
  then show ?case by (auto split: sum.splits)
qed auto

subsection \<open>The request\<close>

lemma message_content_request [simp]:
  "message_content (build_request cfg pdf_text) = build_prompt cfg pdf_text"
  by (simp add: message_content_def build_request_def build_payload_def)

text \<open>With an empty title the template has 69 + 288 + 184 characters.\<close>

lemma template_length: "length (build_prompt sample_config []) = 541"
  by (simp add: build_prompt_def prompt_head_def prompt_middle_def prompt_tail_def
      sample_config_def)

lemma build_prompt_append: "build_prompt cfg pdf_text = build_prompt cfg [] @ pdf_text"
  by (simp add: build_prompt_def)

lemma embedded_text_request [simp]:
  "embedded_text cfg (build_request cfg pdf_text) = pdf_text"
  by (simp add: embedded_text_def build_prompt_def)

subsection \<open>The retry loop\<close>




lemma attempt_completed:
  assumes "requests_post w req k = Responded r" and "status_code r = 200"
    and "json_body r = Some d" and "completion_content d = Inr (JStr s)"
    and "json_loads w s = Some v"
  shows "attempt_once w req k = Return v"
  using assms by (simp add: attempt_once_def try_body_def parse_completion_def)

lemma attempt_permanent:
  assumes "requests_post w req k = Responded r"
    and "status_code r \<noteq> 200" and "status_code r \<noteq> 429" and "status_code r \<noteq> 503"
  shows "attempt_once w req k = Return (JObj [])"
  using assms by (simp add: attempt_once_def try_body_def)

text \<open>Every pass posts, so a call that ran left at least one POST in the log.\<close>

lemma retry_loop_posts:
  "length (posts lg) + (if n = 0 then 0 else 1) \<le>
   length (posts (snd (retry_loop w req n k wt lg)))"
proof (induction n arbitrary: k wt lg)
  case 0
  then show ?case by simp
next
  case (Suc n)
  show ?case
  proof (cases "attempt_once w req k")
    case (Return v)
    then show ?thesis by simp
  next
    case Backoff
    have "length (posts (lg\<lparr>posts := posts lg @ [req], sleeps := sleeps lg @ [wt]\<rparr>)) \<le>
      length (posts (snd (retry_loop w req n (Suc k) (wt * 2)
        (lg\<lparr>posts := posts lg @ [req], sleeps := sleeps lg @ [wt]\<rparr>))))"
      using Suc.IH [of "lg\<lparr>posts := posts lg @ [req], sleeps := sleeps lg @ [wt]\<rparr>"
          "Suc k" "wt * 2"]
      by simp
    with Backoff show ?thesis by simp
  qed
qed

lemma call_llm_api_posts: "posts (snd (call_llm_api w cfg pdf_text)) \<noteq> []"
  using retry_loop_posts [of no_io max_retries w "build_request cfg pdf_text" 0 5]
  by (auto simp: call_llm_api_def max_retries_def)

subsection \<open>The sample worlds\<close>

lemma sample_completion_content:
  "completion_content (JObj [(ustr ''choices'',
        JArr [JObj [(ustr ''message'', JObj [(ustr ''content'', JStr s)])]])]) = Inr (JStr s)"
  by (simp add: completion_content_def)

lemma call_first_completion:
  assumes "requests_post w (build_request cfg pdf_text) 0 = Responded (completion s)"
    and "json_loads w s = Some v"
  shows "call_llm_api w cfg pdf_text =
    (v, \<lparr>posts = [build_request cfg pdf_text], sleeps = []\<rparr>)"
proof -
  have "attempt_once w (build_request cfg pdf_text) 0 = Return v"
    using assms(1) _ _ sample_completion_content assms(2)
    by (rule attempt_completed) (simp_all add: completion_def)
  then show ?thesis
    by (simp add: call_llm_api_def max_retries_def numeral_3_eq_3 no_io_def)
qed

lemma sample_call:
  assumes "sample_loads s = Some v"
  shows "call_llm_api (sample_world (\<lambda>k. Responded (completion s))) cfg pdf_text =
    (v, \<lparr>posts = [build_request cfg pdf_text], sleeps = []\<rparr>)"
  using assms by (intro call_first_completion) (simp_all add: sample_world_def)

lemma sample_blank_text:
  "extract_pdf (sample_world a) (ustr ''papers/blank.pdf'') (ustr ''pdfminer'') = Inr []"
  by (simp add: extract_pdf_def sample_world_def sample_pages_def extract_pdf_clean_text_def py_strip_def)

lemma sample_text:
  "extract_pdf (sample_world a) (ustr ''papers/a.pdf'') (ustr ''pdfminer'') =
   Inr (ustr ''See [1].'')"
  by (simp add: extract_pdf_def sample_world_def sample_pages_def extract_pdf_clean_text_def py_strip_def
      py_isspace_def ustr_def)

lemma basename_blank: "basename (ustr ''papers/blank.pdf'') = ustr ''blank.pdf''"
  by (simp add: basename_def ustr_def)

lemma basename_a: "basename (ustr ''papers/a.pdf'') = ustr ''a.pdf''"
  by (simp add: basename_def ustr_def)

lemma sample_paper_ok: "paper_record sample_paper"
  by (simp add: paper_record_def sample_paper_def dict_get_def)

lemma sample_paper_encodable: "encodable_record sample_paper"
  by (simp add: encodable_record_def citations_of_def sample_paper_def dict_get_def)

lemma length_long_quote [simp]: "length long_quote = 201"
  by (simp add: long_quote_def)

lemma long_quote_encodable: "list_all (\<lambda>c. \<not> is_surrogate c) long_quote"
  by (simp add: long_quote_def list_all_iff is_surrogate_def)

lemma sample_paper_citations: "length (citations_of sample_paper) = 2"
  by (simp add: citations_of_def sample_paper_def dict_get_def)

subsection \<open>Rows\<close>

lemma quote_field_str:
  assumes "py_get cite (ustr ''quote'') (JStr []) = Inr (JStr q)"
  shows "quote_field cite =
    Inr (JStr (if 200 < length q then take 200 q @ ustr ''...'' else q))"
  using assms by (simp add: quote_field_def)

lemma build_row_quote:
  assumes "build_row res cite = Inr row" and "quote_field cite = Inr out"
  shows "row ! 4 = out"
  using assms by (auto simp: build_row_def split: sum.splits)


lemma build_row_length: "build_row res cite = Inr row \<Longrightarrow> length row = 7"
  by (auto simp: build_row_def split: sum.splits)

lemma string_quote_citation:
  assumes "py_get cite (ustr ''quote'') (JStr []) = Inr (JStr q)"
  shows "citation_record cite"
proof (cases cite)
  case (JObj kvs)
  with assms have "dict_get kvs (ustr ''quote'') (JStr []) = JStr q"
    by simp
  then show ?thesis
    unfolding JObj by (cases "map_of kvs (ustr ''quote'')") (simp_all add: dict_get_def)
qed (use assms in simp_all)

text \<open>On the shapes of the data model no element of a row raises.\<close>

lemma build_row_total:
  assumes "paper_record res" and "citation_record cite"
  shows "\<exists>row. build_row res cite = Inr row"
proof -
  obtain fn where fn: "map_of res (ustr ''filename'') = Some fn"
    using assms(1) by (auto simp: paper_record_def)
  obtain as where as: "dict_get res (ustr ''authors'') (JArr []) = JArr as" "list_all is_str as"
    using assms(1) by (auto simp: paper_record_def split: json.splits)
  obtain r where r: "join_strs (ustr ''; '') as = Inr r"
    using join_strs_total [OF as(2)] by blast
  obtain c where c: "cite = JObj c"
    using assms(2) by (cases cite) auto
  obtain q where q: "dict_get c (ustr ''quote'') (JStr []) = JStr q"
    using assms(2) c by (auto simp: dict_get_def split: option.splits json.splits)
  show ?thesis
    by (simp add: build_row_def fn as r c q py_join_def quote_field_def)
qed

text \<open>On an encodable record every string of a row is free of surrogates.\<close>

lemma join_strs_encodable:
  "join_strs sep xs = Inr r \<Longrightarrow> list_all encodable xs \<Longrightarrow> encodable (JStr sep) \<Longrightarrow>
   encodable (JStr r)"
proof (induction sep xs arbitrary: r rule: join_strs.induct)
  case (3 sep s x xs)
  then show ?case by (auto split: sum.splits)
qed auto

lemma quote_field_encodable:
  assumes "quote_field (JObj c) = Inr out"
    and "encodable (dict_get c (ustr ''quote'') (JStr []))"
  shows "encodable out"
proof -
  define v where "v = dict_get c (ustr ''quote'') (JStr [])"
  have enc: "encodable v"
    using assms(2) by (simp add: v_def)
  have "out = v \<or> head_with_ellipsis v = Inr out"
    using assms(1) by (auto simp: quote_field_def v_def split: sum.splits if_splits)
  then show ?thesis
  proof
    assume "out = v"
    with enc show ?thesis by simp
  next
    assume "head_with_ellipsis v = Inr out"
    then obtain s where s: "v = JStr s" "out = JStr (take 200 s @ ustr ''...'')"
      by (cases v) auto
    have "list_all (\<lambda>c. \<not> is_surrogate c) (take 200 s)"
      using enc s(1) by (auto simp: list_all_iff dest: in_set_takeD)
    then show ?thesis by (simp add: s(2))
  qed
qed

lemma length_ustr [simp]: "length (ustr s) = length s"
  by (simp add: ustr_def)

lemma writerow_encodable: "list_all encodable row \<Longrightarrow> writerow row = None"
  by (simp add: writerow_def)

lemma writerow_header: "writerow csv_header = None"
  by (simp add: writerow_def csv_header_def is_surrogate_def)

lemma build_row_encodable:
  assumes "build_row res (JObj c) = Inr row" and "paper_record res"
    and "encodable_record res" and "encodable_citation (JObj c)"
  shows "writerow row = None"
proof -
  obtain fn where fn: "map_of res (ustr ''filename'') = Some fn"
    using assms(2) by (auto simp: paper_record_def)
  obtain as where as: "dict_get res (ustr ''authors'') (JArr []) = JArr as"
    using assms(2) by (auto simp: paper_record_def split: json.splits)
  obtain r where r: "join_strs (ustr ''; '') as = Inr r"
    using assms(1) by (auto simp: build_row_def fn as py_join_def split: sum.splits)
  obtain out where out: "quote_field (JObj c) = Inr out"
    using assms(1) by (auto simp: build_row_def split: sum.splits)
  have row: "row = [fn, dict_get res (ustr ''title'') (JStr []),
      dict_get res (ustr ''journal'') (JStr []), JStr r, out,
      dict_get c (ustr ''sentiment'') (JStr []), dict_get c (ustr ''page'') (JStr [])]"
    using assms(1) by (simp add: build_row_def fn as r out py_join_def)
  have sep: "encodable (JStr (ustr ''; ''))"
    by simp
  have "encodable fn"
    using assms(3) fn by (simp add: encodable_record_def dict_get_def)
  moreover have "encodable (JStr r)"
  proof -
    have "list_all encodable as"
      using assms(3) by (simp add: encodable_record_def as)
    with r show ?thesis using sep by (rule join_strs_encodable)
  qed
  moreover have "encodable out"
    using out assms(4) by (auto intro: quote_field_encodable)
  ultimately show ?thesis
    using assms(3,4) by (simp add: row writerow_def encodable_record_def)
qed

lemma write_cites_single:
  "build_row res cite = Inr row \<Longrightarrow> writerow row = None \<Longrightarrow>
   write_cites res [cite] = ([row], None)"
  by simp

lemma write_cites_rows:
  "list_all (\<lambda>c. \<exists>row. build_row res c = Inr row \<and> writerow row = None) cites \<Longrightarrow>
   snd (write_cites res cites) = None \<and>
   map Inr (fst (write_cites res cites)) = map (build_row res) cites"
  by (induction cites) (auto split: prod.splits)

lemma write_paper_rows:
  assumes "paper_record res" and "encodable_record res"
  shows "snd (write_paper res) = None \<and>
    map Inr (fst (write_paper res)) = map (build_row res) (citations_of res)"
proof -
  obtain cs where cs: "dict_get res (ustr ''citations'') (JArr []) = JArr cs"
      "list_all citation_record cs"
    using assms(1) by (auto simp: paper_record_def split: json.splits)
  have enc: "list_all encodable_citation cs"
    using assms(2) cs(1) by (simp add: encodable_record_def citations_of_def)
  have "\<exists>row. build_row res c = Inr row \<and> writerow row = None" if c: "c \<in> set cs" for c
  proof -
    have cr: "citation_record c" and ec: "encodable_citation c"
      using c cs(2) enc by (auto simp: list_all_iff)
    obtain row where row: "build_row res c = Inr row"
      using build_row_total [OF assms(1) cr] by blast
    obtain kvs where kvs: "c = JObj kvs"
      using cr by (cases c) auto
    have "writerow row = None"
      using row assms ec unfolding kvs by (rule build_row_encodable)
    with row show ?thesis by blast
  qed
  then have "list_all (\<lambda>c. \<exists>row. build_row res c = Inr row \<and> writerow row = None) cs"
    by (simp add: list_all_iff)
  from write_cites_rows [OF this] show ?thesis
    by (simp add: write_paper_def citations_of_def cs)
qed

lemma write_rows_flat:
  "list_all paper_record results \<Longrightarrow> list_all encodable_record results \<Longrightarrow>
   snd (write_rows results) = None \<and>
   map Inr (fst (write_rows results)) =
     concat (map (\<lambda>res. map (build_row res) (citations_of res)) results)"
proof (induction results)
  case Nil
  then show ?case by simp
next
  case (Cons res results)
  then have p: "snd (write_paper res) = None"
      "map Inr (fst (write_paper res)) = map (build_row res) (citations_of res)"
    and r: "snd (write_rows results) = None"
      "map Inr (fst (write_rows results)) =
         concat (map (\<lambda>res. map (build_row res) (citations_of res)) results)"
    using write_paper_rows [of res] by simp_all
  obtain rows where rows: "write_paper res = (rows, None)"
    using p(1) by (cases "write_paper res") auto
  obtain rows' where rows': "write_rows results = (rows', None)"
    using r(1) by (cases "write_rows results") auto
  show ?case using p r by (simp add: rows rows')
qed

text \<open>A record that writes nothing can be dropped from the results, wherever it stands.\<close>

lemma write_rows_skip:
  "write_paper res = ([], None) \<Longrightarrow> write_rows (xs @ res # ys) = write_rows (xs @ ys)"
  by (induction xs) (auto split: prod.splits option.splits)

lemma write_paper_error_marker: "write_paper (error_marker fn code) = ([], None)"
  by (simp add: write_paper_def error_marker_def dict_get_def)

lemma write_paper_no_citations:
  "dict_get res (ustr ''citations'') (JArr []) = JArr [] \<Longrightarrow> write_paper res = ([], None)"
  by (simp add: write_paper_def)

lemma error_marker_ok: "paper_record (error_marker fn code)"
  by (simp add: paper_record_def error_marker_def dict_get_def)

lemma error_marker_encodable:
  "encodable (JStr fn) \<Longrightarrow> encodable_record (error_marker fn code)"
  by (simp add: encodable_record_def citations_of_def error_marker_def dict_get_def)

lemma error_marker_citations: "citations_of (error_marker fn code) = []"
  by (simp add: citations_of_def error_marker_def dict_get_def)

text \<open>A returned record with an error field is an error marker.\<close>

lemma error_record_shape:
  assumes "fst (process_single_pdf w cfg pdf_path) = Inr res"
    and "ustr ''error'' \<in> dom (map_of res)"
  shows "\<exists>code. res = error_marker (basename pdf_path) code"
  using assms
  by (auto simp: process_single_pdf_def Let_def
      split: sum.splits if_splits prod.splits json.splits)

text \<open>The marker for an empty text, and what the batch keeps of a file that raised.\<close>

lemma empty_text_marker:
  assumes "extract_pdf w pdf_path (ustr ''pdfminer'') = Inr []"
  shows "process_single_pdf w cfg pdf_path =
      (Inr (error_marker (basename pdf_path) (ustr ''TEXT_EXTRACTION_FAILED'')),
       \<lparr>posts = [], sleeps = []\<rparr>)"
  using assms by (simp add: process_single_pdf_def no_io_def)

lemma raised_extraction:
  assumes "extract_pages w pdf_path = Inl e"
  shows "process_single_pdf w cfg pdf_path = (Inl e, \<lparr>posts = [], sleeps = []\<rparr>)"
  using assms by (simp add: process_single_pdf_def extract_pdf_def no_io_def)

section \<open>Retry and backoff\<close>



text \<open>
  C4. When the first POST is answered with a status outside 200-299 that is neither 429
  nor 503, \<open>call_llm_api\<close> returns the empty dict after that one POST, without sleeping.
\<close>

theorem permanent_error_no_retry:
  assumes "requests_post w (build_request cfg pdf_text) 0 = Responded r"
    and "status_code r < 200 \<or> 300 \<le> status_code r"
    and "status_code r \<noteq> 429" and "status_code r \<noteq> 503"
  shows "call_llm_api w cfg pdf_text =
    (JObj [], \<lparr>posts = [build_request cfg pdf_text], sleeps = []\<rparr>)"
proof -
  from assms(2) have "status_code r \<noteq> 200" by auto
  with assms have "attempt_once w (build_request cfg pdf_text) 0 = Return (JObj [])"
    by (simp add: attempt_permanent)
  then show ?thesis
    by (simp add: call_llm_api_def max_retries_def numeral_3_eq_3 no_io_def)
qed

theorem permanent_error_no_retry_witness:
  "call_llm_api (sample_world (\<lambda>k. Responded (status_only 401))) sample_config
     (ustr ''See [1].'') =
    (JObj [], \<lparr>posts = [build_request sample_config (ustr ''See [1].'')], sleeps = []\<rparr>)"
proof -
  have "requests_post (sample_world (\<lambda>k. Responded (status_only 401)))
      (build_request sample_config (ustr ''See [1].'')) 0 = Responded (status_only 401)"
    by (simp add: sample_world_def)
  moreover have "status_code (status_only 401) = 401"
    by (simp add: status_only_def)
  ultimately show ?thesis
    using permanent_error_no_retry [of _ sample_config "ustr ''See [1].''" "status_only 401"]
    by simp
qed

section \<open>The prompt\<close>

text \<open>
  C2. The claim is that the request embeds at most the first 30000 characters of the
  extracted text. The label of line 55 announces as much, but line 56 interpolates
  \<^verbatim>\<open>pdf_text\<close> whole: for a text of 30001 characters the one request of the call carries the
  template followed by all 30001 of them.
\<close>

theorem long_text_embedded_whole:
  "posts (snd (call_llm_api (sample_world (\<lambda>k. Responded (completion (ustr ''{}''))))
      sample_config (replicate 30001 97))) =
     [build_request sample_config (replicate 30001 97)] \<and>
   message_content (build_request sample_config (replicate 30001 97)) =
     build_prompt sample_config [] @ replicate 30001 97 \<and>
   embedded_text sample_config (build_request sample_config (replicate 30001 97)) =
     replicate 30001 97 \<and>
   length (embedded_text sample_config (build_request sample_config (replicate 30001 97))) =
     30001"
  using build_prompt_append [of sample_config "replicate 30001 97"]
  by (simp add: sample_call sample_loads_def)

section \<open>Extraction failures\<close>

text \<open>
  C3. The claim is that the default engine hands a failure value to its caller on a parse
  failure and that the caller records an extraction error on the Paper Record. In the
  code an exception of \<^verbatim>\<open>extract_pages\<close> leaves \<open>extract_pdf\<close> and \<open>process_single_pdf\<close>
  as it is, before any POST, and the batch keeps no record for the file. The sibling
  \<open>extract_text\<close> does return the empty string when its library raises.
\<close>

theorem parse_failure_raises:
  assumes "extract_pages w pdf_path = Inl e"
  shows "extract_pdf w pdf_path (ustr ''pdfminer'') = Inl e \<and>
    process_single_pdf w cfg pdf_path = (Inl e, \<lparr>posts = [], sleeps = []\<rparr>) \<and>
    collect w cfg (pdf_path # pdfs) = collect w cfg pdfs \<and>
    (pdf_reader_pages w pdf_path = Inl e' \<longrightarrow> extract_text w pdf_path = [])"
proof -
  have "extract_pdf w pdf_path (ustr ''pdfminer'') = Inl e"
    using assms by (simp add: extract_pdf_def)
  then show ?thesis
    by (simp add: process_single_pdf_def no_io_def extract_text_def)
qed

theorem parse_failure_raises_witness:
  "extract_pdf (sample_world (limited_twice (ustr ''[1]''))) (ustr ''papers/corrupt.pdf'')
     (ustr ''pdfminer'') = Inl PDFParseError \<and>
   process_single_pdf (sample_world (limited_twice (ustr ''[1]''))) sample_config
     (ustr ''papers/corrupt.pdf'') = (Inl PDFParseError, \<lparr>posts = [], sleeps = []\<rparr>) \<and>
   collect (sample_world (limited_twice (ustr ''[1]''))) sample_config
     [ustr ''papers/corrupt.pdf''] = [] \<and>
   main (sample_world (limited_twice (ustr ''[1]''))) sample_config
     [ustr ''papers/corrupt.pdf''] = ([csv_header], None) \<and>
   extract_text (sample_world (limited_twice (ustr ''[1]''))) (ustr ''papers/corrupt.pdf'') = []"
proof -
  have "extract_pages (sample_world (limited_twice (ustr ''[1]'')))
      (ustr ''papers/corrupt.pdf'') = Inl PDFParseError"
    by (simp add: sample_world_def sample_pages_def)
  moreover have "pdf_reader_pages (sample_world (limited_twice (ustr ''[1]'')))
      (ustr ''papers/corrupt.pdf'') = Inl PDFParseError"
    by (simp add: sample_world_def)
  ultimately show ?thesis
    using parse_failure_raises [of _ "ustr ''papers/corrupt.pdf''" PDFParseError sample_config
        "[]" PDFParseError]
    by (simp add: main_def writerow_header)
qed

text \<open>
  C9. The claim is that an empty extracted text gives the error marker with
  TEXT\_EXTRACTION\_FAILED without a call of the classifier, and that such a document
  cannot be told from a parse failure. The first holds: the marker is returned with no
  POST and no sleep, and the classifier posts at least once whenever it runs. The second
  does not: a parse failure of the default engine leaves \<open>process_single_pdf\<close> as an
  exception, and of the two files the batch keeps a record of the empty one only.
\<close>

theorem empty_text_unlike_parse_failure:
  assumes "extract_pdf w blank (ustr ''pdfminer'') = Inr []"
    and "extract_pages w corrupt = Inl e"
  shows "process_single_pdf w cfg blank =
      (Inr (error_marker (basename blank) (ustr ''TEXT_EXTRACTION_FAILED'')),
       \<lparr>posts = [], sleeps = []\<rparr>) \<and>
    (\<forall>t. posts (snd (call_llm_api w cfg t)) \<noteq> []) \<and>
    process_single_pdf w cfg corrupt = (Inl e, \<lparr>posts = [], sleeps = []\<rparr>) \<and>
    collect w cfg [blank, corrupt] =
      [error_marker (basename blank) (ustr ''TEXT_EXTRACTION_FAILED'')]"
  using empty_text_marker [OF assms(1)] raised_extraction [OF assms(2)]
  by (simp add: call_llm_api_posts)

theorem empty_text_unlike_parse_failure_witness:
  "process_single_pdf (sample_world (limited_twice (ustr ''[1]''))) sample_config
     (ustr ''papers/blank.pdf'') =
   (Inr [(ustr ''filename'', JStr (ustr ''blank.pdf'')),
         (ustr ''error'', JStr (ustr ''TEXT_EXTRACTION_FAILED''))],
    \<lparr>posts = [], sleeps = []\<rparr>) \<and>
   process_single_pdf (sample_world (limited_twice (ustr ''[1]''))) sample_config
     (ustr ''papers/corrupt.pdf'') = (Inl PDFParseError, \<lparr>posts = [], sleeps = []\<rparr>) \<and>
   collect (sample_world (limited_twice (ustr ''[1]''))) sample_config
     [ustr ''papers/blank.pdf'', ustr ''papers/corrupt.pdf''] =
     [[(ustr ''filename'', JStr (ustr ''blank.pdf'')),
       (ustr ''error'', JStr (ustr ''TEXT_EXTRACTION_FAILED''))]]"
proof -
  have "extract_pages (sample_world (limited_twice (ustr ''[1]'')))
      (ustr ''papers/corrupt.pdf'') = Inl PDFParseError"
    by (simp add: sample_world_def sample_pages_def)
  from empty_text_unlike_parse_failure [OF sample_blank_text this, of sample_config]
  show ?thesis by (simp add: basename_blank error_marker_def)
qed

section \<open>Classification results\<close>

text \<open>
  C10. When the text is not empty and classification returns the empty dict, as it does
  for the completion \<^verbatim>\<open>{}\<close>, \<open>process_single_pdf\<close> returns the error marker with
  API\_CALL\_FAILED, not a record with empty fields.
\<close>

theorem empty_result_is_api_failure:
  assumes "extract_pdf w pdf_path (ustr ''pdfminer'') = Inr pdf_text" and "pdf_text \<noteq> []"
    and "fst (call_llm_api w cfg pdf_text) = JObj []"
  shows "fst (process_single_pdf w cfg pdf_path) =
      Inr (error_marker (basename pdf_path) (ustr ''API_CALL_FAILED''))"
proof (cases "call_llm_api w cfg pdf_text")
  case (Pair result lg)
  with assms show ?thesis by (simp add: process_single_pdf_def)
qed

theorem empty_result_is_api_failure_witness:
  "fst (call_llm_api (sample_world (\<lambda>k. Responded (completion (ustr ''{}'')))) sample_config
     (ustr ''See [1].'')) = JObj [] \<and>
   fst (process_single_pdf (sample_world (\<lambda>k. Responded (completion (ustr ''{}''))))
     sample_config (ustr ''papers/a.pdf'')) =
   Inr [(ustr ''filename'', JStr (ustr ''a.pdf'')),
        (ustr ''error'', JStr (ustr ''API_CALL_FAILED''))]"
proof -
  have c: "fst (call_llm_api (sample_world (\<lambda>k. Responded (completion (ustr ''{}''))))
     sample_config (ustr ''See [1].'')) = JObj []"
    by (simp add: sample_call sample_loads_def)
  have n: "ustr ''See [1].'' \<noteq> []" by simp
  from empty_result_is_api_failure [OF sample_text n c] c
  show ?thesis by (simp add: basename_a error_marker_def)
qed

text \<open>
  C6. Every record \<open>process_single_pdf\<close> returns has a citations field or an error field.
\<close>

theorem record_has_citations_or_error:
  assumes "fst (process_single_pdf w cfg pdf_path) = Inr res"
  shows "ustr ''citations'' \<in> dom (map_of res) \<or> ustr ''error'' \<in> dom (map_of res)"
  using assms
  by (auto simp: process_single_pdf_def Let_def error_marker_def
      split: sum.splits if_splits prod.splits json.splits)

theorem record_has_citations_or_error_witness:
  "fst (process_single_pdf (sample_world (limited_twice (ustr ''[1]''))) sample_config
     (ustr ''papers/blank.pdf'')) =
     Inr (error_marker (ustr ''blank.pdf'') (ustr ''TEXT_EXTRACTION_FAILED'')) \<and>
   (ustr ''citations'' \<in>
      dom (map_of (error_marker (ustr ''blank.pdf'') (ustr ''TEXT_EXTRACTION_FAILED''))) \<or>
    ustr ''error'' \<in>
      dom (map_of (error_marker (ustr ''blank.pdf'') (ustr ''TEXT_EXTRACTION_FAILED''))))"
proof -
  have r: "fst (process_single_pdf (sample_world (limited_twice (ustr ''[1]''))) sample_config
     (ustr ''papers/blank.pdf'')) =
     Inr (error_marker (ustr ''blank.pdf'') (ustr ''TEXT_EXTRACTION_FAILED''))"
    by (simp add: process_single_pdf_def sample_blank_text basename_blank)
  from record_has_citations_or_error [OF r] r show ?thesis by simp
qed




section \<open>The output table\<close>

text \<open>
  C5. For a citation whose quote is a string (the empty string when the field is
  missing), the quote of the output row, its fifth element, has at most 203 characters;
  it is the source quote itself when that has at most 200 characters, and its first 200
  characters followed by the three dots otherwise. For every Paper Record of the data
  model the row is built, carries this quote, and is the row written when it can be
  encoded.
\<close>

theorem quote_truncated_to_200:
  assumes "py_get cite (ustr ''quote'') (JStr []) = Inr (JStr q)"
  shows "\<exists>out. quote_field cite = Inr (JStr out) \<and> length out \<le> 203 \<and>
           (length q \<le> 200 \<longrightarrow> out = q) \<and>
           (200 < length q \<longrightarrow> out = take 200 q @ ustr ''...'') \<and>
           (\<forall>res row. build_row res cite = Inr row \<longrightarrow> row ! 4 = JStr out) \<and>
           (\<forall>res. paper_record res \<longrightarrow>
              (\<exists>row. build_row res cite = Inr row \<and> length row = 7 \<and> row ! 4 = JStr out \<and>
                 (writerow row = None \<longrightarrow> write_cites res [cite] = ([row], None))))"
proof -
  define out where "out = (if 200 < length q then take 200 q @ ustr ''...'' else q)"
  have q: "quote_field cite = Inr (JStr out)"
    unfolding out_def using assms by (rule quote_field_str)
  have len: "length out \<le> 203"
    by (simp add: out_def)
  have short: "length q \<le> 200 \<longrightarrow> out = q"
    by (simp add: out_def)
  have long: "200 < length q \<longrightarrow> out = take 200 q @ ustr ''...''"
    by (simp add: out_def)
  have any: "\<forall>res row. build_row res cite = Inr row \<longrightarrow> row ! 4 = JStr out"
  proof (intro allI impI)
    fix res row
    assume "build_row res cite = Inr row"
    then show "row ! 4 = JStr out" using q by (rule build_row_quote)
  qed
  have cr: "citation_record cite"
    using assms by (rule string_quote_citation)
  have built: "\<forall>res. paper_record res \<longrightarrow>
      (\<exists>row. build_row res cite = Inr row \<and> length row = 7 \<and> row ! 4 = JStr out \<and>
         (writerow row = None \<longrightarrow> write_cites res [cite] = ([row], None)))"
  proof (intro allI impI)
    fix res
    assume ok: "paper_record res"
    obtain row where row: "build_row res cite = Inr row"
      using build_row_total [OF ok cr] by blast
    have l: "length row = 7"
      using row by (rule build_row_length)
    have f: "row ! 4 = JStr out"
      using row q by (rule build_row_quote)
    have w: "writerow row = None \<longrightarrow> write_cites res [cite] = ([row], None)"
      using write_cites_single [OF row] by (rule impI)
    from row l f w
    show "\<exists>row. build_row res cite = Inr row \<and> length row = 7 \<and> row ! 4 = JStr out \<and>
        (writerow row = None \<longrightarrow> write_cites res [cite] = ([row], None))"
      by (intro exI [of _ row] conjI)
  qed
  from q len short long any built show ?thesis
    by (intro exI [of _ out] conjI)
qed

theorem quote_truncated_to_200_witness:
  "quote_field long_cite = Inr (JStr (take 200 long_quote @ ustr ''...'')) \<and>
   length (take 200 long_quote @ ustr ''...'') = 203 \<and>
   build_row sample_paper long_cite =
     Inr [JStr (ustr ''a.pdf''), JStr (ustr ''T''), JStr [], JStr (ustr ''Li, Y.; Zhang et al.''),
          JStr (take 200 long_quote @ ustr ''...''), JStr [], JStr []] \<and>
   write_cites sample_paper [long_cite] =
     ([[JStr (ustr ''a.pdf''), JStr (ustr ''T''), JStr [], JStr (ustr ''Li, Y.; Zhang et al.''),
        JStr (take 200 long_quote @ ustr ''...''), JStr [], JStr []]], None)"
proof -
  have h: "py_get long_cite (ustr ''quote'') (JStr []) = Inr (JStr long_quote)"
    by (simp add: long_cite_def dict_get_def)
  from quote_truncated_to_200 [OF h]
  obtain out where field: "quote_field long_cite = Inr (JStr out)"
    and long: "200 < length long_quote \<longrightarrow> out = take 200 long_quote @ ustr ''...''"
    and built: "\<forall>res. paper_record res \<longrightarrow>
        (\<exists>row. build_row res long_cite = Inr row \<and> length row = 7 \<and> row ! 4 = JStr out \<and>
           (writerow row = None \<longrightarrow> write_cites res [long_cite] = ([row], None)))"
    by (elim exE conjE) (rule that)
  have o: "out = take 200 long_quote @ ustr ''...''"
    using long by simp
  have "\<exists>row. build_row sample_paper long_cite = Inr row \<and> length row = 7 \<and>
      row ! 4 = JStr out \<and>
      (writerow row = None \<longrightarrow> write_cites sample_paper [long_cite] = ([row], None))"
    by (rule built [rule_format, OF sample_paper_ok])
  then obtain row where row: "build_row sample_paper long_cite = Inr row"
    and written: "writerow row = None \<longrightarrow> write_cites sample_paper [long_cite] = ([row], None)"
    by (elim exE conjE) (rule that)
  have explicit: "build_row sample_paper long_cite =
      Inr [JStr (ustr ''a.pdf''), JStr (ustr ''T''), JStr [], JStr (ustr ''Li, Y.; Zhang et al.''),
        JStr (take 200 long_quote @ ustr ''...''), JStr [], JStr []]"
    by (simp add: build_row_def sample_paper_def long_cite_def dict_get_def py_join_def
        quote_field_def)
  have r: "row = [JStr (ustr ''a.pdf''), JStr (ustr ''T''), JStr [], JStr (ustr ''Li, Y.; Zhang et al.''),
        JStr (take 200 long_quote @ ustr ''...''), JStr [], JStr []]"
    using row explicit by simp
  have "list_all (\<lambda>c. \<not> is_surrogate c) (take 200 long_quote)"
    using long_quote_encodable by (auto simp: list_all_iff dest: in_set_takeD)
  then have "writerow row = None"
    unfolding r by (intro writerow_encodable) simp
  with written have w: "write_cites sample_paper [long_cite] = ([row], None)"
    by simp
  have l: "length (take 200 long_quote @ ustr ''...'') = 203"
    by simp
  from field o l explicit w r show ?thesis
    by simp
qed

text \<open>
  C7, as amended. For Paper Records of the data model whose text fields hold no lone
  surrogate, the writing step raises nothing and writes, in order, exactly the row of
  every pair of a record and one of its citations, so as many data rows as there are
  citations. A returned record with an error field, and a record whose citations are the
  empty list, add no row wherever they stand among the results. The table of \<open>main\<close> is
  the header followed by these rows.
\<close>

theorem one_row_per_citation:
  "(list_all paper_record results \<and> list_all encodable_record results \<longrightarrow>
      snd (write_rows results) = None \<and>
      map Inr (fst (write_rows results)) =
        concat (map (\<lambda>res. map (build_row res) (citations_of res)) results) \<and>
      length (fst (write_rows results)) =
        sum_list (map (\<lambda>res. length (citations_of res)) results)) \<and>
   (fst (process_single_pdf w cfg pdf_path) = Inr res \<and> ustr ''error'' \<in> dom (map_of res) \<longrightarrow>
      write_rows (xs @ res # ys) = write_rows (xs @ ys)) \<and>
   (dict_get res' (ustr ''citations'') (JArr []) = JArr [] \<longrightarrow>
      write_rows (xs @ res' # ys) = write_rows (xs @ ys)) \<and>
   fst (main w cfg pdf_files) = csv_header # fst (write_rows (collect w cfg pdf_files))"
proof -
  have flat: "snd (write_rows results) = None \<and>
      map Inr (fst (write_rows results)) =
        concat (map (\<lambda>res. map (build_row res) (citations_of res)) results) \<and>
      length (fst (write_rows results)) =
        sum_list (map (\<lambda>res. length (citations_of res)) results)"
    if ok: "list_all paper_record results" "list_all encodable_record results"
  proof -
    note f = write_rows_flat [OF ok]
    have "length (fst (write_rows results)) =
        length (map Inr (fst (write_rows results)) :: (exn + json list) list)"
      by simp
    also have "\<dots> = sum_list (map (\<lambda>res. length (citations_of res)) results)"
      by (simp only: f length_concat) (simp add: comp_def)
    finally show ?thesis using f by simp
  qed
  have err: "write_rows (xs @ res # ys) = write_rows (xs @ ys)"
    if "fst (process_single_pdf w cfg pdf_path) = Inr res" "ustr ''error'' \<in> dom (map_of res)"
    using error_record_shape [OF that] by (auto simp: write_rows_skip write_paper_error_marker)
  have none: "write_rows (xs @ res' # ys) = write_rows (xs @ ys)"
    if "dict_get res' (ustr ''citations'') (JArr []) = JArr []"
    using that by (simp add: write_rows_skip write_paper_no_citations)
  have "fst (main w cfg pdf_files) = csv_header # fst (write_rows (collect w cfg pdf_files))"
    by (simp add: main_def writerow_header split: prod.splits)
  with flat err none show ?thesis by blast
qed

theorem one_row_per_citation_witness:
  "snd (write_rows [error_marker (ustr ''blank.pdf'') (ustr ''TEXT_EXTRACTION_FAILED''),
      sample_paper,
      [(ustr ''filename'', JStr (ustr ''c.pdf'')), (ustr ''citations'', JArr [])]]) = None \<and>
   length (fst (write_rows [error_marker (ustr ''blank.pdf'') (ustr ''TEXT_EXTRACTION_FAILED''),
      sample_paper,
      [(ustr ''filename'', JStr (ustr ''c.pdf'')), (ustr ''citations'', JArr [])]])) = 2 \<and>
   write_rows [error_marker (ustr ''blank.pdf'') (ustr ''TEXT_EXTRACTION_FAILED''), sample_paper] =
     write_rows [sample_paper] \<and>
   write_rows [sample_paper,
      [(ustr ''filename'', JStr (ustr ''c.pdf'')), (ustr ''citations'', JArr [])]] =
     write_rows [sample_paper]"
proof -
  let ?m = "error_marker (ustr ''blank.pdf'') (ustr ''TEXT_EXTRACTION_FAILED'')"
  let ?c = "[(ustr ''filename'', JStr (ustr ''c.pdf'')), (ustr ''citations'', JArr [])]"
  let ?w = "sample_world (limited_twice (ustr ''[1]''))"
  have c_ok: "paper_record ?c"
    by (simp add: paper_record_def dict_get_def)
  have c_none: "dict_get ?c (ustr ''citations'') (JArr []) = JArr []"
    by (simp add: dict_get_def)
  have c_cit: "citations_of ?c = []"
    by (simp add: citations_of_def c_none)
  have c_enc: "encodable_record ?c"
    by (simp add: encodable_record_def c_cit dict_get_def)
  have all_ok: "list_all paper_record [?m, sample_paper, ?c]"
    by (simp add: error_marker_ok sample_paper_ok c_ok)
  have all_enc: "list_all encodable_record [?m, sample_paper, ?c]"
    by (simp add: error_marker_encodable sample_paper_encodable c_enc)
  have ret: "fst (process_single_pdf ?w sample_config (ustr ''papers/blank.pdf'')) = Inr ?m"
    by (simp add: process_single_pdf_def sample_blank_text basename_blank)
  have err: "ustr ''error'' \<in> dom (map_of ?m)"
    by (simp add: error_marker_def)
  note t = one_row_per_citation [where results = "[?m, sample_paper, ?c]" and w = ?w
      and cfg = sample_config and pdf_path = "ustr ''papers/blank.pdf''" and res = ?m
      and xs = "[]" and ys = "[sample_paper]" and res' = ?c]
  have a: "snd (write_rows [?m, sample_paper, ?c]) = None"
    and b: "length (fst (write_rows [?m, sample_paper, ?c])) = 2"
    using t all_ok all_enc
    by (simp_all add: error_marker_citations sample_paper_citations c_cit)
  have c: "write_rows [?m, sample_paper] = write_rows [sample_paper]"
    using t ret err by simp
  have d: "write_rows [sample_paper, ?c] = write_rows [sample_paper]"
    using one_row_per_citation [where res' = ?c and xs = "[sample_paper]" and ys = "[]"] c_none
    by simp
  from a b c d show ?thesis by blast
qed

text \<open>
  C7, as stated, fails on a Paper Record of the data model: of the three citations of
  \<open>surrogate_paper\<close> the first is written, \<^verbatim>\<open>writerow\<close> raises \<^verbatim>\<open>UnicodeEncodeError\<close> on the
  second, whose quote is a lone surrogate, and the third is never reached.
\<close>

theorem one_row_per_citation_counterexample:
  "paper_record surrogate_paper \<and> length (citations_of surrogate_paper) = 3 \<and>
   write_rows [surrogate_paper] =
     ([[JStr (ustr ''s.pdf''), JStr (ustr ''T''), JStr [], JStr [], JStr (ustr ''ok''), JStr [],
        JStr []]],
      Some UnicodeEncodeError)"
proof -
  have shape: "paper_record surrogate_paper"
    by (simp add: paper_record_def surrogate_paper_def dict_get_def)
  have three: "length (citations_of surrogate_paper) = 3"
    by (simp add: citations_of_def surrogate_paper_def dict_get_def)
  have first: "build_row surrogate_paper (JObj [(ustr ''quote'', JStr (ustr ''ok''))]) =
      Inr [JStr (ustr ''s.pdf''), JStr (ustr ''T''), JStr [], JStr [], JStr (ustr ''ok''), JStr [],
        JStr []]"
    by (simp add: build_row_def surrogate_paper_def dict_get_def py_join_def quote_field_def)
  have second: "build_row surrogate_paper (JObj [(ustr ''quote'', JStr [55296])]) =
      Inr [JStr (ustr ''s.pdf''), JStr (ustr ''T''), JStr [], JStr [], JStr [55296], JStr [],
        JStr []]"
    by (simp add: build_row_def surrogate_paper_def dict_get_def py_join_def quote_field_def)
  have ok: "writerow [JStr (ustr ''s.pdf''), JStr (ustr ''T''), JStr [], JStr [],
      JStr (ustr ''ok''), JStr [], JStr []] = None"
    by (simp add: writerow_encodable)
  have "is_surrogate 55296"
    by (simp add: is_surrogate_def)
  then have bad: "writerow [JStr (ustr ''s.pdf''), JStr (ustr ''T''), JStr [], JStr [],
      JStr [55296], JStr [], JStr []] = Some UnicodeEncodeError"
    by (simp add: writerow_def)
  have cites: "dict_get surrogate_paper (ustr ''citations'') (JArr []) =
      JArr [JObj [(ustr ''quote'', JStr (ustr ''ok''))], JObj [(ustr ''quote'', JStr [55296])],
        JObj [(ustr ''quote'', JStr (ustr ''later''))]]"
    by (simp add: surrogate_paper_def dict_get_def)
  have "write_rows [surrogate_paper] =
     ([[JStr (ustr ''s.pdf''), JStr (ustr ''T''), JStr [], JStr [], JStr (ustr ''ok''), JStr [],
        JStr []]],
      Some UnicodeEncodeError)"
    by (simp add: write_paper_def cites first second ok bad)
  with shape three show ?thesis by simp
qed

end
